theory Spec2Isabelle
  imports Complex_Main
begin

section \<open>Strings as the program uses them\<close>

text \<open>
  A Python \<open>str\<close> is modelled as a \<open>string\<close> whose characters are the code points below
  256. \<open>str.lower\<close> maps the capital letters of that range to their small letters and
  \<open>str.strip\<close> removes the white space of that range from both ends.
\<close>

definition lower_char :: "char \<Rightarrow> char" where
  "lower_char c =
     (let n = (of_char c :: nat)
      in if (65 \<le> n \<and> n \<le> 90) \<or> (192 \<le> n \<and> n \<le> 222 \<and> n \<noteq> 215)
         then char_of (n + 32) else c)"

definition lower :: "string \<Rightarrow> string" where
  "lower s = map lower_char s"

definition is_space :: "char \<Rightarrow> bool" where
  "is_space c =
     (let n = (of_char c :: nat)
      in (9 \<le> n \<and> n \<le> 13) \<or> (28 \<le> n \<and> n \<le> 32) \<or> n = 133 \<or> n = 160)"

definition strip :: "string \<Rightarrow> string" where
  "strip s = rev (dropWhile is_space (rev (dropWhile is_space s)))"

text \<open>\<open>s.startswith(p)\<close>, \<open>s.endswith(p)\<close> and the substring test \<open>sub in s\<close>.\<close>

fun startswith :: "string \<Rightarrow> string \<Rightarrow> bool" where
  "startswith s [] = True"
| "startswith [] (p # ps) = False"
| "startswith (c # cs) (p # ps) = (c = p \<and> startswith cs ps)"

definition endswith :: "string \<Rightarrow> string \<Rightarrow> bool" where
  "endswith s p = startswith (rev s) (rev p)"

fun isin :: "string \<Rightarrow> string \<Rightarrow> bool" where
  "isin sub [] = (sub = [])"
| "isin sub (c # cs) = (startswith (c # cs) sub \<or> isin sub cs)"

section \<open>The keyword categorizer\<close>

text \<open>
  \<open>categorize(desc)\<close>: \<open>None\<close> gives \<open>Others\<close>; otherwise the lower-cased text is tested
  against the keyword groups in the order of the source, and the first group that
  matches decides.
\<close>

fun categorize :: "string option \<Rightarrow> string" where
  "categorize None = ''Others''"
| "categorize (Some d) =
     (let desc = lower d
      in if isin ''salary'' desc then ''Income''
         else if isin ''fuel'' desc \<or> isin ''diesel'' desc then ''Fuel''
         else if isin ''zomato'' desc \<or> isin ''swiggy'' desc \<or> isin ''restaurant'' desc
           then ''Food''
         else if isin ''amazon'' desc \<or> isin ''flipkart'' desc then ''Shopping''
         else if isin ''mutual fund'' desc \<or> isin ''sip'' desc then ''Investments''
         else if isin ''upi'' desc \<or> isin ''transfer'' desc \<or> isin ''google pay'' desc
               \<or> isin ''gpay'' desc
           then ''Transfers''
         else ''Others'')"

section \<open>Tables\<close>

text \<open>
  A cell of a table is missing (\<open>NaN\<close>, which also stands for \<open>None\<close> and \<open>NaT\<close>), a
  number, a text or a calendar date (year, month, day). Amounts are exact rationals:
  the rounding of binary floating point is not part of the model. A data frame is the
  ordered list of its named columns; a well-formed one has distinct column names after
  stripping and columns of one length.
\<close>

datatype cell = NaN | Num rat | Str string | Timestamp nat nat nat

type_synonym series = "cell list"

type_synonym dataframe = "(string \<times> series) list"

definition df_columns :: "dataframe \<Rightarrow> string list" where
  "df_columns df = map fst df"

definition nrows :: "dataframe \<Rightarrow> nat" where
  "nrows df = (case df of [] \<Rightarrow> 0 | (n, xs) # rest \<Rightarrow> length xs)"

definition wf_table :: "dataframe \<Rightarrow> bool" where
  "wf_table df =
     (distinct (map strip (df_columns df)) \<and> list_all (\<lambda>(n, xs). length xs = nrows df) df)"

text \<open>\<open>df.empty\<close>: one of the two axes has length 0.\<close>

definition df_empty :: "dataframe \<Rightarrow> bool" where
  "df_empty df = (df = [] \<or> nrows df = 0)"

text \<open>\<open>df[name]\<close> (\<open>None\<close> where pandas raises \<open>KeyError\<close>) and \<open>df[name] = xs\<close>.\<close>

definition getcol :: "dataframe \<Rightarrow> string \<Rightarrow> series option" where
  "getcol df name = map_of df name"

definition setcol :: "dataframe \<Rightarrow> string \<Rightarrow> series \<Rightarrow> dataframe" where
  "setcol df name xs =
     (if name \<in> set (df_columns df)
      then map (\<lambda>(n, ys). if n = name then (n, xs) else (n, ys)) df
      else df @ [(name, xs)])"

text \<open>\<open>df.columns = df.columns.str.strip()\<close>\<close>

definition strip_columns :: "dataframe \<Rightarrow> dataframe" where
  "strip_columns df = map (\<lambda>(n, xs). (strip n, xs)) df"

text \<open>
  The conversions of the pandas library that read text are parameters of the model: how
  a text parses as a number or as a date, how a number or a date prints, how a frame
  serialises and how a file's bytes read as a table.
\<close>

record pandas =
  parse_number :: "string \<Rightarrow> rat option"
  number_of_timestamp :: "nat \<Rightarrow> nat \<Rightarrow> nat \<Rightarrow> rat option"
  parse_date :: "string \<Rightarrow> (nat \<times> nat \<times> nat) option"
  date_of_number :: "rat \<Rightarrow> (nat \<times> nat \<times> nat) option"
  str_of_number :: "rat \<Rightarrow> string"
  str_of_timestamp :: "nat \<Rightarrow> nat \<Rightarrow> nat \<Rightarrow> string"
  to_json :: "dataframe \<Rightarrow> string option"
  read_csv :: "string \<Rightarrow> dataframe option"
  read_excel :: "string \<Rightarrow> dataframe option"

text \<open>\<open>pd.to_numeric(s, errors="coerce")\<close>, cell by cell: \<open>None\<close> is the missing value.\<close>

fun to_numeric :: "pandas \<Rightarrow> cell \<Rightarrow> rat option" where
  "to_numeric pd NaN = None"
| "to_numeric pd (Num r) = Some r"
| "to_numeric pd (Str s) = parse_number pd s"
| "to_numeric pd (Timestamp y m d) = number_of_timestamp pd y m d"

definition num_cell :: "rat option \<Rightarrow> cell" where
  "num_cell x = (case x of None \<Rightarrow> NaN | Some r \<Rightarrow> Num r)"

text \<open>\<open>.fillna(v)\<close> on a numeric series, as the list of its values.\<close>

definition fillna_num :: "rat \<Rightarrow> rat option \<Rightarrow> rat" where
  "fillna_num v x = (case x of None \<Rightarrow> v | Some r \<Rightarrow> r)"

text \<open>\<open>pd.to_datetime(s, errors="coerce")\<close>, cell by cell.\<close>

fun to_datetime :: "pandas \<Rightarrow> cell \<Rightarrow> cell" where
  "to_datetime pd NaN = NaN"
| "to_datetime pd (Timestamp y m d) = Timestamp y m d"
| "to_datetime pd (Str s) =
     (case parse_date pd s of None \<Rightarrow> NaN | Some (y, m, d) \<Rightarrow> Timestamp y m d)"
| "to_datetime pd (Num r) =
     (case date_of_number pd r of None \<Rightarrow> NaN | Some (y, m, d) \<Rightarrow> Timestamp y m d)"

text \<open>\<open>str(x)\<close> of a cell's value.\<close>

fun py_str :: "pandas \<Rightarrow> cell \<Rightarrow> string" where
  "py_str pd NaN = ''nan''"
| "py_str pd (Str s) = s"
| "py_str pd (Num r) = str_of_number pd r"
| "py_str pd (Timestamp y m d) = str_of_timestamp pd y m d"

text \<open>\<open>.dt.strftime("%Y-%m")\<close>, cell by cell; a missing date gives a missing month.\<close>

definition digit :: "nat \<Rightarrow> char" where
  "digit n = char_of (48 + n mod 10)"

fun strftime_Y_m :: "cell \<Rightarrow> cell" where
  "strftime_Y_m (Timestamp y m d) =
     Str [digit (y div 1000), digit (y div 100), digit (y div 10), digit y, CHR ''-'',
          digit (m div 10), digit m]"
| "strftime_Y_m c = NaN"

text \<open>
  \<open>is_datetime64_any_dtype\<close>: the column holds dates and missing values only. The
  column \<open>Date\<close> is tested right after \<open>to_datetime\<close> produced it.
\<close>

fun datetime_cell :: "cell \<Rightarrow> bool" where
  "datetime_cell NaN = True"
| "datetime_cell (Timestamp y m d) = True"
| "datetime_cell c = False"

definition is_datetime64_any_dtype :: "series \<Rightarrow> bool" where
  "is_datetime64_any_dtype s = list_all datetime_cell s"

text \<open>
  \<open>df.groupby(key)["Amount"].sum().to_dict()\<close>: rows whose key is missing are dropped,
  every other row adds its amount to the entry of its key. The dictionary is the list of
  its entries, one per key; the order of the entries carries no meaning.
\<close>

fun add_to_group :: "cell \<Rightarrow> rat \<Rightarrow> (cell \<times> rat) list \<Rightarrow> (cell \<times> rat) list" where
  "add_to_group k v [] = [(k, v)]"
| "add_to_group k v ((k', s) # gs) =
     (if k = k' then (k', s + v) # gs else (k', s) # add_to_group k v gs)"

fun groupby_sum :: "(cell \<times> rat) list \<Rightarrow> (cell \<times> rat) list \<Rightarrow> (cell \<times> rat) list" where
  "groupby_sum [] acc = acc"
| "groupby_sum ((k, v) # rs) acc =
     groupby_sum rs (if k = NaN then acc else add_to_group k v acc)"

text \<open>The values of a numeric column; \<open>sum\<close> skips missing values.\<close>

fun float_of :: "cell \<Rightarrow> rat" where
  "float_of (Num r) = r"
| "float_of c = 0"

section \<open>Column detection\<close>

text \<open>The \<open>for i, c in enumerate(cols_lower)\<close> loops: the first column that matches.\<close>

fun first_where :: "(string \<Rightarrow> bool) \<Rightarrow> (string \<times> string) list \<Rightarrow> string list" where
  "first_where P [] = []"
| "first_where P ((col, c) # rest) = (if P c then [col] else first_where P rest)"

definition first_or_none :: "string list \<Rightarrow> string option" where
  "first_or_none cands = (case cands of [] \<Rightarrow> None | c # rest \<Rightarrow> Some c)"

definition detect_columns :: "string list \<Rightarrow> string option \<times> string option \<times> string option" where
  "detect_columns df_cols =
     (let cols = map strip df_cols;
          cols_lower = map lower cols;
          desc_candidates =
            filter (\<lambda>c. lower c \<in> set [''description'', ''narration'', ''details'',
                                          ''remarks'', ''particulars'']) cols;
          desc_candidates =
            (if desc_candidates = []
             then first_where (\<lambda>c. isin ''desc'' c \<or> isin ''narr'' c \<or> isin ''particular'' c)
                    (zip cols cols_lower)
             else desc_candidates);
          amt_candidates =
            filter (\<lambda>c. isin ''amount'' (lower c)
                       \<or> lower c \<in> set [''amount'', ''amt'', ''value'', ''debit'', ''credit'']) cols;
          amt_candidates =
            (if amt_candidates = []
             then first_where (\<lambda>c. isin ''amt'' c \<or> isin ''debit'' c \<or> isin ''credit'' c
                                     \<or> isin ''balance'' c)
                    (zip cols cols_lower)
             else amt_candidates);
          date_candidates =
            filter (\<lambda>c. isin ''date'' (lower c) \<or> isin ''txn date'' (lower c)
                       \<or> isin ''transaction date'' (lower c)) cols
      in (first_or_none desc_candidates, first_or_none amt_candidates,
          first_or_none date_candidates))"

text \<open>The truth value of \<open>None\<close> and of a string: only a non-empty string is true.\<close>

fun truthy :: "string option \<Rightarrow> bool" where
  "truthy None = False"
| "truthy (Some s) = (s \<noteq> [])"

section \<open>Normalization: \<open>process_transactions\<close>\<close>

text \<open>
  The exceptions of \<open>process_transactions\<close>. \<open>KeyError\<close> is the only one that is not a
  \<open>ValueError\<close>.
\<close>

datatype error =
  ReadFailed
| NoData
| MissingColumns "string list"
| ReplaceValueError
| KeyError string

fun is_value_error :: "error \<Rightarrow> bool" where
  "is_value_error (KeyError k) = False"
| "is_value_error e = True"

definition bind_err :: "error + 'a \<Rightarrow> ('a \<Rightarrow> error + 'b) \<Rightarrow> error + 'b" where
  "bind_err m f = (case m of Inl e \<Rightarrow> Inl e | Inr x \<Rightarrow> f x)"

definition lookup_col :: "dataframe \<Rightarrow> string \<Rightarrow> error + series" where
  "lookup_col df name = (case getcol df name of None \<Rightarrow> Inl (KeyError name) | Some s \<Rightarrow> Inr s)"

record summary =
  total_income :: rat
  total_expense :: rat
  net_balance :: rat
  monthly_summary :: "(cell \<times> rat) list"
  category_summary :: "(cell \<times> rat) list"
  rows :: nat

fun isna :: "cell \<Rightarrow> bool" where
  "isna NaN = True"
| "isna c = False"

text \<open>\<open>df[desc_col].fillna("").astype(str)\<close>\<close>

definition description_of :: "pandas \<Rightarrow> cell \<Rightarrow> cell" where
  "description_of pd c = Str (py_str pd (if isna c then Str [] else c))"

text \<open>
  The primary amount (lines 102 to 105): the detected column coerced to numbers; when
  reading the column raises, the \<open>except\<close> branch coerces a column of zeros instead.
\<close>

definition primary_amount :: "pandas \<Rightarrow> dataframe \<Rightarrow> string \<Rightarrow> dataframe" where
  "primary_amount pd df amt_col =
     (let col = (case getcol df amt_col of
                   Some s \<Rightarrow> s
                 | None \<Rightarrow> replicate (nrows df) (Num 0))
      in setcol df ''Amount'' (map (\<lambda>c. num_cell (to_numeric pd c)) col))"

text \<open>The loop over \<open>df.columns\<close> of lines 109 to 114: the last match of each name stays.\<close>

fun find_debit_credit ::
  "string list \<Rightarrow> string option \<times> string option \<Rightarrow> string option \<times> string option" where
  "find_debit_credit [] found = found"
| "find_debit_credit (c # cs) (debit_col, credit_col) =
     (let cl = lower c
      in find_debit_credit cs
           (if ''debit'' = cl then Some c else debit_col,
            if ''credit'' = cl then Some c else credit_col))"

text \<open>Credit minus debit, row by row, each side coerced and its missing values set to 0.\<close>

definition credit_minus_debit :: "pandas \<Rightarrow> series \<Rightarrow> series \<Rightarrow> series" where
  "credit_minus_debit pd credit debit =
     map2 (\<lambda>c d. Num (fillna_num 0 (to_numeric pd c) - fillna_num 0 (to_numeric pd d)))
       credit debit"

definition debit_credit_fallback :: "pandas \<Rightarrow> dataframe \<Rightarrow> error + dataframe" where
  "debit_credit_fallback pd df =
     (case find_debit_credit (df_columns df) (None, None) of
        (debit_col, credit_col) \<Rightarrow>
          if truthy debit_col \<and> truthy credit_col
          then bind_err (lookup_col df ''Amount'') (\<lambda>amount.
                 if list_all isna amount
                 then bind_err (lookup_col df (case credit_col of Some c \<Rightarrow> c | None \<Rightarrow> []))
                        (\<lambda>credit.
                      bind_err (lookup_col df (case debit_col of Some c \<Rightarrow> c | None \<Rightarrow> []))
                        (\<lambda>debit.
                      Inr (setcol df ''Amount'' (credit_minus_debit pd credit debit))))
                 else Inr df)
          else Inr df)"

text \<open>Line 118: the final coercion, what is still missing becomes 0.\<close>

definition final_coercion :: "pandas \<Rightarrow> dataframe \<Rightarrow> error + dataframe" where
  "final_coercion pd df =
     bind_err (lookup_col df ''Amount'') (\<lambda>amount.
       Inr (setcol df ''Amount'' (map (\<lambda>c. Num (fillna_num 0 (to_numeric pd c))) amount)))"

text \<open>Lines 102 to 118 together: the amount resolution.\<close>

definition resolve_amount :: "pandas \<Rightarrow> dataframe \<Rightarrow> string \<Rightarrow> error + dataframe" where
  "resolve_amount pd df amt_col =
     bind_err (debit_credit_fallback pd (primary_amount pd df amt_col)) (final_coercion pd)"

text \<open>
  Lines 120 to 132. With \<open>errors="coerce"\<close> the conversion does not raise, so the
  \<open>except\<close> branches are not modelled.
\<close>

fun scan_date_candidates :: "pandas \<Rightarrow> dataframe \<Rightarrow> string list \<Rightarrow> dataframe" where
  "scan_date_candidates pd df [] = df"
| "scan_date_candidates pd df (cand # rest) =
     (case getcol df cand of
        Some col \<Rightarrow> setcol df ''Date'' (map (to_datetime pd) col)
      | None \<Rightarrow> scan_date_candidates pd df rest)"

definition derive_date :: "pandas \<Rightarrow> dataframe \<Rightarrow> string option \<Rightarrow> dataframe" where
  "derive_date pd df date_col =
     (case (if truthy date_col then date_col else None) of
        Some dc \<Rightarrow>
          (case getcol df dc of
             Some col \<Rightarrow> setcol df ''Date'' (map (to_datetime pd) col)
           | None \<Rightarrow>
               scan_date_candidates pd df [''Date'', ''date'', ''Txn Date'', ''Transaction Date''])
      | None \<Rightarrow>
          scan_date_candidates pd df [''Date'', ''date'', ''Txn Date'', ''Transaction Date''])"

text \<open>Lines 134 to 139: the month column and the monthly summary.\<close>

definition derive_month :: "dataframe \<Rightarrow> error + dataframe \<times> (cell \<times> rat) list" where
  "derive_month df =
     (case getcol df ''Date'' of
        Some date \<Rightarrow>
          if is_datetime64_any_dtype date
          then (let df = setcol df ''Month'' (map strftime_Y_m date)
                in bind_err (lookup_col df ''Month'') (\<lambda>month.
                   bind_err (lookup_col df ''Amount'') (\<lambda>amount.
                     Inr (df, groupby_sum (zip month (map float_of amount)) []))))
          else Inr (setcol df ''Month'' (replicate (nrows df) NaN), [])
      | None \<Rightarrow> Inr (setcol df ''Month'' (replicate (nrows df) NaN), []))"

text \<open>
  \<open>Series.replace(to_replace, value)\<close> with a scalar \<open>to_replace\<close> and a \<open>Series\<close> as
  \<open>value\<close>: pandas takes the series for a dictionary and, on a series that is not empty,
  raises \<open>ValueError("Series.replace cannot use dict-value and non-None to_replace")\<close>.
\<close>

definition series_replace :: "series \<Rightarrow> cell \<Rightarrow> series \<Rightarrow> error + series" where
  "series_replace s to_replace val = (if s = [] then Inr s else Inl ReplaceValueError)"

text \<open>Lines 141 to 144.\<close>

definition assign_category :: "pandas \<Rightarrow> dataframe \<Rightarrow> error + dataframe" where
  "assign_category pd df =
     bind_err (lookup_col df ''Description'') (\<lambda>description.
       let computed = map (\<lambda>c. Str (categorize (Some (py_str pd c)))) description
       in case getcol df ''Category'' of
            None \<Rightarrow> Inr (setcol df ''Category'' computed)
          | Some category \<Rightarrow>
              bind_err
                (series_replace (map (\<lambda>c. if isna c then Str [] else c) category) (Str [])
                   computed)
                (\<lambda>replaced. Inr (setcol df ''Category'' replaced)))"

text \<open>Lines 146 to 155.\<close>

definition summarize :: "dataframe \<Rightarrow> (cell \<times> rat) list \<Rightarrow> error + summary" where
  "summarize df monthly =
     bind_err (lookup_col df ''Category'') (\<lambda>category.
     bind_err (lookup_col df ''Amount'') (\<lambda>amount.
       let amounts = map float_of amount
       in Inr \<lparr> total_income = sum_list (filter (\<lambda>a. a > 0) amounts),
                total_expense = sum_list (filter (\<lambda>a. a < 0) amounts),
                net_balance = sum_list amounts,
                monthly_summary = monthly,
                category_summary = groupby_sum (zip category amounts) [],
                rows = nrows df \<rparr>))"

text \<open>The body of \<open>process_transactions\<close> from line 92 on, on the table that was read.\<close>

definition process_df :: "pandas \<Rightarrow> dataframe \<Rightarrow> error + dataframe \<times> summary" where
  "process_df pd df0 =
     (if df_empty df0 then Inl NoData
      else
        let df = strip_columns df0
        in case detect_columns (df_columns df) of
             (desc_col, amt_col, date_col) \<Rightarrow>
               if \<not> truthy desc_col \<or> \<not> truthy amt_col
               then Inl (MissingColumns (df_columns df))
               else
                 bind_err (lookup_col df (case desc_col of Some c \<Rightarrow> c | None \<Rightarrow> []))
                   (\<lambda>desc.
                 let df = setcol df ''Description'' (map (description_of pd) desc)
                 in bind_err
                      (resolve_amount pd df (case amt_col of Some c \<Rightarrow> c | None \<Rightarrow> []))
                      (\<lambda>df.
                    bind_err (derive_month (derive_date pd df date_col)) (\<lambda>(df, monthly).
                    bind_err (assign_category pd df) (\<lambda>df.
                    bind_err (summarize df monthly) (\<lambda>summary.
                      Inr (df, summary)))))))"

text \<open>
  \<open>process_transactions(file_path)\<close>: the file is read as CSV when its lower-cased path
  ends in \<open>.csv\<close> and as an Excel workbook otherwise; a reader that raises gives
  \<open>ValueError("Failed to read file")\<close>.
\<close>

definition process_transactions ::
  "pandas \<Rightarrow> (string \<rightharpoonup> string) \<Rightarrow> string \<Rightarrow> error + dataframe \<times> summary" where
  "process_transactions pd files file_path =
     (case (case files file_path of
              None \<Rightarrow> None
            | Some bytes \<Rightarrow>
                if endswith (lower file_path) ''.csv'' then read_csv pd bytes
                else read_excel pd bytes) of
        None \<Rightarrow> Inl ReadFailed
      | Some df \<Rightarrow> process_df pd df)"

section \<open>The question-answering call: \<open>ask_ai\<close>\<close>

text \<open>
  The module's globals \<open>GROQ_API_KEY\<close> and \<open>GROQ_MODEL\<close>; \<open>client\<close> is not \<open>None\<close>
  exactly when the key is a non-empty string.
\<close>

record config =
  groq_api_key :: "string option"
  groq_model :: "string option"

definition client_configured :: "config \<Rightarrow> bool" where
  "client_configured cfg = truthy (groq_api_key cfg)"

text \<open>
  The values the completion service may return for a choice: nothing, a text, a
  dictionary or an object with attributes.
\<close>

datatype pyval = PNone | PStr string | PDict "(string \<times> pyval) list" | PObj "(string \<times> pyval) list"

fun py_truthy :: "pyval \<Rightarrow> bool" where
  "py_truthy PNone = False"
| "py_truthy (PStr s) = (s \<noteq> [])"
| "py_truthy (PDict d) = (d \<noteq> [])"
| "py_truthy (PObj a) = True"

definition py_or :: "pyval \<Rightarrow> pyval \<Rightarrow> pyval" where
  "py_or a b = (if py_truthy a then a else b)"

text \<open>\<open>d.get(k)\<close> on a dictionary and \<open>getattr(o, k, None)\<close> on any value.\<close>

definition dict_get :: "(string \<times> pyval) list \<Rightarrow> string \<Rightarrow> pyval" where
  "dict_get d k = (case map_of d k of None \<Rightarrow> PNone | Some v \<Rightarrow> v)"

fun getattr :: "pyval \<Rightarrow> string \<Rightarrow> pyval" where
  "getattr (PObj a) k = dict_get a k"
| "getattr v k = PNone"

text \<open>
  The service: \<open>create\<close> answers a model name and a prompt with the list of choices of
  the response (\<open>None\<close> when the response has no such attribute) or raises with a
  message; \<open>response_str\<close> is \<open>str(response)\<close>.
\<close>

record groq =
  create :: "string \<Rightarrow> string \<Rightarrow> string + pyval list option"
  response_str :: "pyval list option \<Rightarrow> string"

datatype runtime_error = NotConfigured | Decommissioned string | RequestFailed string

text \<open>Lines 196 to 210: the content of the first choice.\<close>

definition content_of_msg_dict :: "(string \<times> pyval) list \<Rightarrow> pyval" where
  "content_of_msg_dict m = py_or (dict_get m ''content'') (dict_get m ''text'')"

fun extract_content :: "pyval \<Rightarrow> pyval" where
  "extract_content (PDict first) =
     (case py_or (dict_get first ''message'') (py_or (dict_get first ''text'') (PDict first)) of
        PDict m \<Rightarrow> content_of_msg_dict m
      | PStr t \<Rightarrow> PStr t
      | other \<Rightarrow> PNone)"
| "extract_content first =
     (case py_or (getattr first ''message'') (py_or (getattr first ''text'') first) of
        PDict m \<Rightarrow> content_of_msg_dict m
      | msg \<Rightarrow> py_or (getattr msg ''content'') (getattr msg ''text''))"

text \<open>\<open>df.tail(200)\<close>\<close>

definition tail :: "nat \<Rightarrow> dataframe \<Rightarrow> dataframe" where
  "tail n df = map (\<lambda>(name, xs). (name, drop (length xs - n) xs)) df"

definition df_json :: "pandas \<Rightarrow> dataframe \<Rightarrow> string" where
  "df_json pd df =
     (case to_json pd df of
        None \<Rightarrow> ''[]''
      | Some j \<Rightarrow>
          if length j > 35000
          then (case to_json pd (tail 200 df) of None \<Rightarrow> ''[]'' | Some t \<Rightarrow> t)
          else j)"

definition prompt_of :: "string \<Rightarrow> string \<Rightarrow> string" where
  "prompt_of json user_question =
     ''You are a Financial Spending Analysis AI.'' @ [CHR 0x0A]
     @ ''You are given a user's bank transaction history in JSON format:''
     @ [CHR 0x0A, CHR 0x0A] @ json @ [CHR 0x0A, CHR 0x0A]
     @ ''The user asks: '' @ [CHR 0x22] @ user_question @ [CHR 0x22, CHR 0x0A, CHR 0x0A]
     @ ''Analyze the data carefully and return:'' @ [CHR 0x0A]
     @ ''- A clear answer to the question'' @ [CHR 0x0A]
     @ ''- Exact numbers if required'' @ [CHR 0x0A]
     @ ''- Additional insights & warnings'' @ [CHR 0x0A]
     @ ''- Spending optimization tips'' @ [CHR 0x0A, CHR 0x0A]
     @ ''The answer must be simple and accurate.''"

definition ask_ai ::
  "config \<Rightarrow> groq \<Rightarrow> pandas \<Rightarrow> dataframe \<Rightarrow> string \<Rightarrow> runtime_error + pyval" where
  "ask_ai cfg svc pd df user_question =
     (if \<not> client_configured cfg \<or> \<not> truthy (groq_model cfg) then Inl NotConfigured
      else
        case create svc (case groq_model cfg of Some m \<Rightarrow> m | None \<Rightarrow> [])
               (prompt_of (df_json pd df) user_question) of
          Inl msg \<Rightarrow>
            if isin ''decommission'' (lower msg) \<or> isin ''model_decommissioned'' (lower msg)
            then Inl (Decommissioned msg)
            else Inl (RequestFailed msg)
        | Inr response \<Rightarrow>
            (let content =
                   (case response of
                      None \<Rightarrow> PNone
                    | Some [] \<Rightarrow> PNone
                    | Some (first # rest) \<Rightarrow> extract_content first)
             in if py_truthy content then Inr content
                else Inr (PStr (response_str svc response))))"

section \<open>The HTTP operations\<close>

text \<open>
  The state of the server: the files written below the working directory, by path, and
  the file \<open>transactions.pkl\<close>, which is absent, unreadable or holds a pickled frame.
  What the environment decides for one upload: whether \<open>os.makedirs\<close> and the write of
  the received bytes fail, and whether \<open>to_pickle\<close> raises (then leaving
  \<open>transactions.pkl\<close> in the given state).
\<close>

datatype pickle_file = NoFile | Unreadable | Pickled dataframe

record server =
  files :: "string \<rightharpoonup> string"
  transactions_pkl :: pickle_file

record upload_file =
  filename :: "string option"
  content :: string

record io =
  makedirs_fails :: bool
  save_fails :: bool
  to_pickle_raises :: "pickle_file option"

datatype detail =
  UnsupportedFileType
| SaveFailed
| ProcessingError error
| InternalServerError
| KeyNotConfigured
| NoTransactions
| LoadFailed
| AIError runtime_error

datatype http_exception = HTTPException nat detail

text \<open>\<open>os.path.join(a, b)\<close> with \<open>/\<close> as the separator.\<close>

definition path_join :: "string \<Rightarrow> string \<Rightarrow> string" where
  "path_join a b =
     (if startswith b ''/'' then b
      else if a = [] \<or> endswith a ''/'' then a @ b
      else a @ ''/'' @ b)"

definition upload_excel ::
  "pandas \<Rightarrow> io \<Rightarrow> upload_file \<Rightarrow> server \<Rightarrow> (http_exception + summary) \<times> server" where
  "upload_excel pd env file srv =
     (let fname = (if truthy (filename file)
                   then (case filename file of Some f \<Rightarrow> f | None \<Rightarrow> [])
                   else ''uploaded_file'')
      in if \<not> list_ex (\<lambda>ext. endswith (lower fname) ext) [''.xlsx'', ''.xls'', ''.csv'']
         then (Inl (HTTPException 400 UnsupportedFileType), srv)
         else if makedirs_fails env then (Inl (HTTPException 500 InternalServerError), srv)
         else
           let file_path = path_join ''uploads'' fname
           in if save_fails env then (Inl (HTTPException 500 SaveFailed), srv)
              else
                let srv = srv\<lparr>files := (files srv)(file_path \<mapsto> content file)\<rparr>
                in case process_transactions pd (files srv) file_path of
                     Inl e \<Rightarrow>
                       (Inl (HTTPException (if is_value_error e then 400 else 500)
                               (ProcessingError e)), srv)
                   | Inr (df, summary) \<Rightarrow>
                       (Inr summary,
                        srv\<lparr>transactions_pkl :=
                              (case to_pickle_raises env of
                                 None \<Rightarrow> Pickled df
                               | Some left \<Rightarrow> left)\<rparr>))"

definition query_financial ::
  "config \<Rightarrow> groq \<Rightarrow> pandas \<Rightarrow> string \<Rightarrow> server \<Rightarrow> http_exception + string \<times> pyval" where
  "query_financial cfg svc pd question srv =
     (if \<not> client_configured cfg then Inl (HTTPException 503 KeyNotConfigured)
      else
        case transactions_pkl srv of
          NoFile \<Rightarrow> Inl (HTTPException 404 NoTransactions)
        | Unreadable \<Rightarrow> Inl (HTTPException 500 LoadFailed)
        | Pickled df \<Rightarrow>
            (case ask_ai cfg svc pd df question of
               Inl re \<Rightarrow> Inl (HTTPException 502 (AIError re))
             | Inr answer \<Rightarrow> Inr (question, answer)))"

section \<open>Reference notions and example tables\<close>


text \<open>
  The substring relation, stated by positions: \<open>kw\<close> stands at some offset of \<open>s\<close>.
\<close>

definition substring :: "string \<Rightarrow> string \<Rightarrow> bool" where
  "substring kw s = list_ex (\<lambda>i. take (length kw) (drop i s) = kw) [0..<Suc (length s)]"

text \<open>
  The categorizer as the specification words it: an ordered list of keyword groups with
  their labels, read top to bottom, the first group with a keyword in the text deciding,
  and \<open>Others\<close> when none does.
\<close>

definition category_rules :: "(string list \<times> string) list" where
  "category_rules =
     [([''salary''], ''Income''),
      ([''fuel'', ''diesel''], ''Fuel''),
      ([''zomato'', ''swiggy'', ''restaurant''], ''Food''),
      ([''amazon'', ''flipkart''], ''Shopping''),
      ([''mutual fund'', ''sip''], ''Investments''),
      ([''upi'', ''transfer'', ''google pay'', ''gpay''], ''Transfers'')]"

fun first_match :: "(string list \<times> string) list \<Rightarrow> string \<Rightarrow> string" where
  "first_match [] s = ''Others''"
| "first_match ((kws, label) # rules) s =
     (if list_ex (\<lambda>kw. substring kw s) kws then label else first_match rules s)"

text \<open>
  A library whose text conversions recognise nothing: the closed examples below use
  tables of numbers, texts and dates that need none of them.
\<close>

definition plain_pandas :: pandas where
  "plain_pandas =
     \<lparr> parse_number = (\<lambda>s. None), number_of_timestamp = (\<lambda>y m d. None),
       parse_date = (\<lambda>s. None), date_of_number = (\<lambda>r. None),
       str_of_number = (\<lambda>r. []), str_of_timestamp = (\<lambda>y m d. []),
       to_json = (\<lambda>df. None), read_csv = (\<lambda>b. None), read_excel = (\<lambda>b. None) \<rparr>"

text \<open>Scenario A of the specification.\<close>

definition scenario_A :: dataframe where
  "scenario_A =
     [(''Narration'', [Str ''SALARY CREDIT'', Str ''ZOMATO ORDER'']),
      (''Amount'', [Num 50000, Num (- 450)])]"

text \<open>What the examples read off a result.\<close>

definition categories_and_net ::
  "error + dataframe \<times> summary \<Rightarrow> (series option \<times> rat) option" where
  "categories_and_net r =
     (case r of Inl e \<Rightarrow> None | Inr (df, s) \<Rightarrow> Some (getcol df ''Category'', net_balance s))"

text \<open>A library that reads every CSV file as the table of Scenario A.\<close>

definition scenario_A_reader :: pandas where
  "scenario_A_reader = plain_pandas\<lparr>read_csv := (\<lambda>bytes. Some scenario_A)\<rparr>"

text \<open>Servers, configurations and a completion service for the closed examples.\<close>

definition empty_server :: server where
  "empty_server = \<lparr>files = Map.empty, transactions_pkl = NoFile\<rparr>"

definition reports_success :: "(http_exception + summary) \<times> server \<Rightarrow> bool" where
  "reports_success r = (case fst r of Inl e \<Rightarrow> False | Inr s \<Rightarrow> True)"

definition no_config :: config where
  "no_config = \<lparr>groq_api_key = None, groq_model = None\<rparr>"

definition key_only :: config where
  "key_only = \<lparr>groq_api_key = Some ''k'', groq_model = None\<rparr>"

definition full_config :: config where
  "full_config = \<lparr>groq_api_key = Some ''k'', groq_model = Some ''m''\<rparr>"

definition hello_service :: groq where
  "hello_service =
     \<lparr>create = (\<lambda>model prompt.
         Inr (Some [PObj [(''message'', PObj [(''content'', PStr ''hello'')])]])),
      response_str = (\<lambda>r. [])\<rparr>"

text \<open>
  Where a relative path leads: its components with \<open>.\<close> and empty components
  dropped and \<open>..\<close> resolved against the component before it. A path lies outside
  the directory \<open>uploads\<close> when it is absolute or its resolved form does not start
  with the component \<open>uploads\<close>.
\<close>

fun split_path :: "string \<Rightarrow> string \<Rightarrow> string list" where
  "split_path [] cur = [rev cur]"
| "split_path (c # cs) cur =
     (if c = CHR ''/'' then rev cur # split_path cs [] else split_path cs (c # cur))"

fun resolve :: "string list \<Rightarrow> string list \<Rightarrow> string list" where
  "resolve [] st = rev st"
| "resolve (c # cs) st =
     (if c = [] \<or> c = ''.'' then resolve cs st
      else if c = ''..'' then
        (case st of
           [] \<Rightarrow> resolve cs [c]
         | t # below \<Rightarrow> if t = ''..'' then resolve cs (c # st) else resolve cs below)
      else resolve cs (c # st))"

definition outside_uploads :: "string \<Rightarrow> bool" where
  "outside_uploads p =
     (startswith p ''/''
      \<or> (case resolve (split_path p []) [] of [] \<Rightarrow> True | c # rest \<Rightarrow> c \<noteq> ''uploads''))"

text \<open>Environments and uploads for the closed examples.\<close>

definition ok_io :: io where
  "ok_io = \<lparr>makedirs_fails = False, save_fails = False, to_pickle_raises = None\<rparr>"

definition failing_pickle_io :: io where
  "failing_pickle_io = \<lparr>makedirs_fails = False, save_fails = False, to_pickle_raises = Some NoFile\<rparr>"

definition file_a_csv :: upload_file where
  "file_a_csv = \<lparr>filename = Some ''a.csv'', content = ''x''\<rparr>"

definition unnamed_file :: upload_file where
  "unnamed_file = \<lparr>filename = None, content = ''x''\<rparr>"

text \<open>All columns of a frame have the length \<open>k\<close>.\<close>

definition uniform :: "nat \<Rightarrow> dataframe \<Rightarrow> bool" where
  "uniform k df = list_all (\<lambda>(n, xs). length xs = k) df"

text \<open>
  The columns whose lower-cased name is exactly \<open>name\<close>, and the gate of the debit/credit
  fallback as the specification words it: a column named exactly \<open>debit\<close> and one named
  exactly \<open>credit\<close> exist and the coerced primary column is missing in every row.
\<close>

definition named_exactly :: "string \<Rightarrow> dataframe \<Rightarrow> string list" where
  "named_exactly name df = filter (\<lambda>c. lower c = name) (df_columns df)"

definition fallback_gate :: "pandas \<Rightarrow> dataframe \<Rightarrow> series \<Rightarrow> bool" where
  "fallback_gate pd df primary =
     (named_exactly ''debit'' df \<noteq> [] \<and> named_exactly ''credit'' df \<noteq> []
      \<and> list_all (\<lambda>c. to_numeric pd c = None) primary)"

text \<open>
  Two tables with \<open>Debit\<close> and \<open>Credit\<close> columns beside an \<open>Amount\<close> column: one
  whose amounts are all unparseable, one with a parseable amount.
\<close>

definition fallback_table :: dataframe where
  "fallback_table =
     [(''Narration'', [Str ''rent'', Str ''salary'']),
      (''Amount'', [NaN, Str ''n/a'']),
      (''Debit'', [Num 100, Num 0]),
      (''Credit'', [Num 0, Num 500])]"

definition signed_table :: dataframe where
  "signed_table =
     [(''Narration'', [Str ''rent'', Str ''salary'']),
      (''Amount'', [Num (- 100), NaN]),
      (''Debit'', [Num 100, Num 0]),
      (''Credit'', [Num 0, Num 500])]"



definition column_of :: "string \<Rightarrow> error + dataframe \<times> summary \<Rightarrow> series option" where
  "column_of name r = (case r of Inl e \<Rightarrow> None | Inr (df, s) \<Rightarrow> getcol df name)"


definition scenario_B_described :: dataframe where
  "scenario_B_described =
     [(''Narration'', [Str ''rent'', Str ''salary'']),
      (''Debit'', [Num 100, Num 0]),
      (''Credit'', [Num 0, Num 500])]"

definition category_table :: dataframe where
  "category_table =
     [(''Narration'', [Str ''ZOMATO ORDER'', Str ''RENT'']),
      (''Amount'', [Num (- 450), Num (- 9000)]),
      (''Category'', [NaN, Str ''Housing''])]"

definition header_only_table :: dataframe where
  "header_only_table = [(''Narration'', []), (''Amount'', [])]"

definition no_amount_table :: dataframe where
  "no_amount_table = [(''Narration'', [Str ''rent'']), (''Paid'', [Num 5])]"

section \<open>Strings\<close>

lemma startswith_iff: "startswith s p \<longleftrightarrow> (\<exists>t. s = p @ t)"
  by (induction s p rule: startswith.induct) auto

lemma isin_iff: "isin sub s \<longleftrightarrow> (\<exists>pre post. s = pre @ sub @ post)"
proof (induction s)
  case Nil
  show ?case by auto
next
  case (Cons c cs)
  show ?case
  proof
    assume "isin sub (c # cs)"
    then consider "startswith (c # cs) sub" | "isin sub cs" by auto
    then show "\<exists>pre post. c # cs = pre @ sub @ post"
    proof cases
      case 1
      then obtain t where "c # cs = sub @ t" by (auto simp: startswith_iff)
      then have "c # cs = [] @ sub @ t" by simp
      then show ?thesis by blast
    next
      case 2
      then obtain pre post where "cs = pre @ sub @ post" using Cons.IH by auto
      then have "c # cs = (c # pre) @ sub @ post" by simp
      then show ?thesis by blast
    qed
  next
    assume "\<exists>pre post. c # cs = pre @ sub @ post"
    then obtain pre post where e: "c # cs = pre @ sub @ post" by blast
    show "isin sub (c # cs)"
    proof (cases pre)
      case Nil
      with e have "startswith (c # cs) sub" by (auto simp: startswith_iff)
      then show ?thesis by simp
    next
      case (Cons a pre')
      with e have "cs = pre' @ sub @ post" by simp
      then have "isin sub cs" using Cons.IH by blast
      then show ?thesis by simp
    qed
  qed
qed

lemma substring_iff: "substring kw s \<longleftrightarrow> (\<exists>pre post. s = pre @ kw @ post)"
proof
  assume "substring kw s"
  then obtain i where m: "i \<in> set [0..<Suc (length s)]"
    and t: "take (length kw) (drop i s) = kw"
    unfolding substring_def list_ex_iff by blast
  from m have "i \<le> length s" by auto
  note i = this t
  have "s = take i s @ drop i s"
    by (simp only: append_take_drop_id)
  also have "drop i s = take (length kw) (drop i s) @ drop (length kw) (drop i s)"
    by (simp only: append_take_drop_id)
  finally have "s = take i s @ take (length kw) (drop i s) @ drop (length kw) (drop i s)" .
  with i show "\<exists>pre post. s = pre @ kw @ post" by metis
next
  assume "\<exists>pre post. s = pre @ kw @ post"
  then obtain pre post where s: "s = pre @ kw @ post" by blast
  then have "length pre \<le> length s" "take (length kw) (drop (length pre) s) = kw" by auto
  then show "substring kw s"
    unfolding substring_def list_ex_iff by (intro bexI[of _ "length pre"]) auto
qed

lemma isin_substring: "isin kw s = substring kw s"
  by (simp add: isin_iff substring_iff)

section \<open>The categorizer\<close>

text \<open>
  C5: \<open>categorize\<close> is the ordered keyword list of the specification read top to
  bottom on the lower-cased description, first match winning and \<open>Others\<close> by default;
  a missing description gives \<open>Others\<close>; the two rows of Scenario A get the
  categories \<open>Income\<close> and \<open>Food\<close> and the net balance 49550.
\<close>

theorem categorize_first_match:
  "categorize None = ''Others''
   \<and> categorize (Some d) = first_match category_rules (lower d)
   \<and> categories_and_net (process_df pd scenario_A)
       = Some (Some [Str ''Income'', Str ''Food''], 49550)"
proof -
  have a: "categorize None = ''Others''" by simp
  have b: "categorize (Some d) = first_match category_rules (lower d)"
    by (simp add: category_rules_def isin_substring Let_def)
  have c: "categories_and_net (process_df pd scenario_A)
       = Some (Some [Str ''Income'', Str ''Food''], 49550)"
    by code_simp
  from a b c show ?thesis by blast
qed

theorem categorize_first_match_witness:
  "categorize (Some ''Zomato order'') = ''Food''
   \<and> first_match category_rules (lower ''Zomato order'') = ''Food''
   \<and> categories_and_net (process_df plain_pandas scenario_A)
       = Some (Some [Str ''Income'', Str ''Food''], 49550)"
proof -
  have "categorize (Some ''Zomato order'') = ''Food''" by code_simp
  then show ?thesis
    using categorize_first_match [of "''Zomato order''" plain_pandas] by simp
qed

section \<open>The query operation\<close>

text \<open>
  C9, as stated, asks for a not-found error whenever nothing is stored and for a
  service-unavailable error whenever the key or the model is unconfigured. With nothing
  stored and no key the operation answers 503, not 404.
\<close>

theorem query_no_upload_no_key_counterexample:
  "transactions_pkl empty_server = NoFile
   \<and> query_financial no_config hello_service plain_pandas ''q'' empty_server
       = Inl (HTTPException 503 KeyNotConfigured)
   \<and> HTTPException 503 KeyNotConfigured \<noteq> HTTPException 404 NoTransactions"
  by (simp add: query_financial_def client_configured_def no_config_def empty_server_def)

lemma query_success_inv:
  "query_financial cfg svc pd q srv = Inr (q', a) \<Longrightarrow>
      q' = q \<and> client_configured cfg \<and> truthy (groq_model cfg)
      \<and> (\<exists>df. transactions_pkl srv = Pickled df \<and> ask_ai cfg svc pd df q = Inr a)"
  unfolding query_financial_def
  by (cases "transactions_pkl srv") (auto simp: ask_ai_def split: if_splits sum.splits)

lemma query_success:
  "client_configured cfg \<and> transactions_pkl srv = Pickled df \<and> groq_model cfg = Some m
        \<and> m \<noteq> [] \<and> create svc m (prompt_of (df_json pd df) q) = Inr response \<Longrightarrow>
      (\<exists>answer. ask_ai cfg svc pd df q = Inr answer
          \<and> query_financial cfg svc pd q srv = Inr (q, answer))"
  by (auto simp: query_financial_def ask_ai_def Let_def)

lemma query_errors:
  "(\<not> client_configured cfg \<longrightarrow>
      query_financial cfg svc pd q srv = Inl (HTTPException 503 KeyNotConfigured))
   \<and> (client_configured cfg \<and> transactions_pkl srv = NoFile \<longrightarrow>
      query_financial cfg svc pd q srv = Inl (HTTPException 404 NoTransactions))
   \<and> (client_configured cfg \<and> transactions_pkl srv = Unreadable \<longrightarrow>
      query_financial cfg svc pd q srv = Inl (HTTPException 500 LoadFailed))
   \<and> (client_configured cfg \<and> transactions_pkl srv = Pickled df \<and> \<not> truthy (groq_model cfg) \<longrightarrow>
      query_financial cfg svc pd q srv = Inl (HTTPException 502 (AIError NotConfigured)))"
  by (simp add: query_financial_def ask_ai_def)

text \<open>
  C9, amended: the query operation tests in this order. Without a key it answers 503
  whatever is stored; with a key and no stored dataset 404 (500 when the stored file is
  unreadable); with a key and a stored dataset but no model identifier 502; and when the
  service answers, the result is the question as it was asked together with the answer of
  \<open>ask_ai\<close>. Every success has this form.
\<close>

theorem query_financial_outcomes:
  "(\<not> client_configured cfg \<longrightarrow>
      query_financial cfg svc pd q srv = Inl (HTTPException 503 KeyNotConfigured))
   \<and> (client_configured cfg \<and> transactions_pkl srv = NoFile \<longrightarrow>
      query_financial cfg svc pd q srv = Inl (HTTPException 404 NoTransactions))
   \<and> (client_configured cfg \<and> transactions_pkl srv = Unreadable \<longrightarrow>
      query_financial cfg svc pd q srv = Inl (HTTPException 500 LoadFailed))
   \<and> (client_configured cfg \<and> transactions_pkl srv = Pickled df \<and> \<not> truthy (groq_model cfg) \<longrightarrow>
      query_financial cfg svc pd q srv = Inl (HTTPException 502 (AIError NotConfigured)))
   \<and> (client_configured cfg \<and> transactions_pkl srv = Pickled df \<and> groq_model cfg = Some m
        \<and> m \<noteq> [] \<and> create svc m (prompt_of (df_json pd df) q) = Inr response \<longrightarrow>
      (\<exists>answer. ask_ai cfg svc pd df q = Inr answer
          \<and> query_financial cfg svc pd q srv = Inr (q, answer)))
   \<and> (query_financial cfg svc pd q srv = Inr (q', a) \<longrightarrow>
      q' = q \<and> client_configured cfg \<and> truthy (groq_model cfg)
      \<and> (\<exists>df. transactions_pkl srv = Pickled df \<and> ask_ai cfg svc pd df q = Inr a))"
proof -
  note e = query_errors [of cfg svc pd q srv df]
  have s: "client_configured cfg \<and> transactions_pkl srv = Pickled df \<and> groq_model cfg = Some m
        \<and> m \<noteq> [] \<and> create svc m (prompt_of (df_json pd df) q) = Inr response \<longrightarrow>
      (\<exists>answer. ask_ai cfg svc pd df q = Inr answer
          \<and> query_financial cfg svc pd q srv = Inr (q, answer))"
    by (rule impI) (rule query_success)
  have i: "query_financial cfg svc pd q srv = Inr (q', a) \<longrightarrow>
      q' = q \<and> client_configured cfg \<and> truthy (groq_model cfg)
      \<and> (\<exists>df. transactions_pkl srv = Pickled df \<and> ask_ai cfg svc pd df q = Inr a)"
    by (rule impI) (rule query_success_inv)
  from e have e1: "\<not> client_configured cfg \<longrightarrow>
      query_financial cfg svc pd q srv = Inl (HTTPException 503 KeyNotConfigured)"
    and e2: "client_configured cfg \<and> transactions_pkl srv = NoFile \<longrightarrow>
      query_financial cfg svc pd q srv = Inl (HTTPException 404 NoTransactions)"
    and e3: "client_configured cfg \<and> transactions_pkl srv = Unreadable \<longrightarrow>
      query_financial cfg svc pd q srv = Inl (HTTPException 500 LoadFailed)"
    and e4: "client_configured cfg \<and> transactions_pkl srv = Pickled df
        \<and> \<not> truthy (groq_model cfg) \<longrightarrow>
      query_financial cfg svc pd q srv = Inl (HTTPException 502 (AIError NotConfigured))"
    by blast+
  show ?thesis
    by (intro conjI) (rule e1, rule e2, rule e3, rule e4, rule s, rule i)
qed

theorem query_financial_outcomes_witness:
  "query_financial no_config hello_service plain_pandas ''q'' empty_server
     = Inl (HTTPException 503 KeyNotConfigured)
   \<and> query_financial key_only hello_service plain_pandas ''q'' empty_server
     = Inl (HTTPException 404 NoTransactions)
   \<and> query_financial key_only hello_service plain_pandas ''q''
       (empty_server\<lparr>transactions_pkl := Pickled scenario_A\<rparr>)
     = Inl (HTTPException 502 (AIError NotConfigured))
   \<and> query_financial full_config hello_service plain_pandas ''q''
       (empty_server\<lparr>transactions_pkl := Pickled scenario_A\<rparr>)
     = Inr (''q'', PStr ''hello'')"
proof -
  have 4: "query_financial full_config hello_service plain_pandas ''q''
       (empty_server\<lparr>transactions_pkl := Pickled scenario_A\<rparr>)
     = Inr (''q'', PStr ''hello'')"
    by (simp add: query_financial_def ask_ai_def client_configured_def full_config_def
        hello_service_def empty_server_def py_or_def dict_get_def content_of_msg_dict_def)
  have a: "\<not> client_configured no_config" "client_configured key_only"
    "\<not> truthy (groq_model key_only)" "transactions_pkl empty_server = NoFile"
    "transactions_pkl (empty_server\<lparr>transactions_pkl := Pickled scenario_A\<rparr>) = Pickled scenario_A"
    by (simp_all add: client_configured_def no_config_def key_only_def empty_server_def)
  from a query_financial_outcomes [of no_config hello_service plain_pandas "''q''" empty_server]
  have 1: "query_financial no_config hello_service plain_pandas ''q'' empty_server
     = Inl (HTTPException 503 KeyNotConfigured)" by blast
  from a query_financial_outcomes [of key_only hello_service plain_pandas "''q''" empty_server]
  have 2: "query_financial key_only hello_service plain_pandas ''q'' empty_server
     = Inl (HTTPException 404 NoTransactions)" by blast
  from a query_financial_outcomes [of key_only hello_service plain_pandas "''q''"
        "empty_server\<lparr>transactions_pkl := Pickled scenario_A\<rparr>" scenario_A]
  have 3: "query_financial key_only hello_service plain_pandas ''q''
       (empty_server\<lparr>transactions_pkl := Pickled scenario_A\<rparr>)
     = Inl (HTTPException 502 (AIError NotConfigured))" by blast
  from 1 2 3 4 show ?thesis by blast
qed

section \<open>The upload operation\<close>

lemma ext_uploaded_file:
  "\<not> list_ex (\<lambda>ext. endswith (lower ''uploaded_file'') ext) [''.xlsx'', ''.xls'', ''.csv'']"
  by code_simp

text \<open>
  C8, as stated, excludes a success that leaves the store without the new dataset. When
  \<open>to_pickle\<close> raises, the exception is logged and the upload still answers with
  success: here nothing was stored before and nothing is stored after.
\<close>

theorem upload_success_without_store_counterexample:
  "reports_success (upload_excel scenario_A_reader failing_pickle_io file_a_csv empty_server)
   \<and> transactions_pkl (snd (upload_excel scenario_A_reader failing_pickle_io file_a_csv empty_server))
       = NoFile"
  by code_simp

text \<open>
  C8, amended: an upload that answers with an error leaves \<open>transactions.pkl\<close> as it
  was; an upload that answers with success has processed the file it wrote, and
  \<open>transactions.pkl\<close> then holds the new frame when \<open>to_pickle\<close> did not raise and
  whatever the failed write left when it raised.
\<close>

theorem upload_store_effect:
  "(fst (upload_excel pd env file srv) = Inl e \<longrightarrow>
      transactions_pkl (snd (upload_excel pd env file srv)) = transactions_pkl srv)
   \<and> (fst (upload_excel pd env file srv) = Inr s \<longrightarrow>
      (\<exists>df path. process_transactions pd ((files srv)(path \<mapsto> content file)) path = Inr (df, s)
         \<and> transactions_pkl (snd (upload_excel pd env file srv))
             = (case to_pickle_raises env of None \<Rightarrow> Pickled df | Some left \<Rightarrow> left)))"
proof (intro conjI impI)
  assume "fst (upload_excel pd env file srv) = Inl e"
  then show "transactions_pkl (snd (upload_excel pd env file srv)) = transactions_pkl srv"
    by (auto simp: upload_excel_def Let_def split: if_splits sum.splits prod.splits)
next
  assume "fst (upload_excel pd env file srv) = Inr s"
  then show "\<exists>df path. process_transactions pd ((files srv)(path \<mapsto> content file)) path = Inr (df, s)
         \<and> transactions_pkl (snd (upload_excel pd env file srv))
             = (case to_pickle_raises env of None \<Rightarrow> Pickled df | Some left \<Rightarrow> left)"
    by (auto simp: upload_excel_def Let_def split: if_splits sum.splits prod.splits)
qed


theorem upload_store_effect_witness:
  "(\<exists>df. transactions_pkl (snd (upload_excel scenario_A_reader ok_io file_a_csv empty_server))
           = Pickled df)
   \<and> transactions_pkl (snd (upload_excel scenario_A_reader ok_io unnamed_file empty_server))
       = transactions_pkl empty_server"
proof -
  have "reports_success (upload_excel scenario_A_reader ok_io file_a_csv empty_server)"
    by code_simp
  then obtain s where "fst (upload_excel scenario_A_reader ok_io file_a_csv empty_server) = Inr s"
    by (auto simp: reports_success_def split: sum.splits)
  with upload_store_effect [of scenario_A_reader ok_io file_a_csv empty_server _ s]
  have 1: "\<exists>df. transactions_pkl (snd (upload_excel scenario_A_reader ok_io file_a_csv empty_server))
           = Pickled df"
    by (auto simp: ok_io_def)
  have "\<not> reports_success (upload_excel scenario_A_reader ok_io unnamed_file empty_server)"
    by code_simp
  then obtain e where "fst (upload_excel scenario_A_reader ok_io unnamed_file empty_server) = Inl e"
    by (auto simp: reports_success_def split: sum.splits)
  with upload_store_effect [of scenario_A_reader ok_io unnamed_file empty_server e]
  have 2: "transactions_pkl (snd (upload_excel scenario_A_reader ok_io unnamed_file empty_server))
       = transactions_pkl empty_server"
    by blast
  from 1 2 show ?thesis by blast
qed

lemma path_join_uploads:
  "path_join ''uploads'' f = (if startswith f ''/'' then f else ''uploads/'' @ f)"
  by (simp add: path_join_def endswith_def)

text \<open>
  C10, as stated, has every upload write its bytes, under the name \<open>uploaded_file\<close>
  when no filename is given. That name has no supported extension: the upload is refused
  with 400 and nothing is written.
\<close>

theorem upload_without_filename_counterexample:
  "fst (upload_excel scenario_A_reader ok_io unnamed_file empty_server)
     = Inl (HTTPException 400 UnsupportedFileType)
   \<and> files (snd (upload_excel scenario_A_reader ok_io unnamed_file empty_server))
       (path_join ''uploads'' ''uploaded_file'') = None"
  by code_simp

text \<open>
  C10, amended: an upload whose filename is not empty and ends, lower-cased, in
  \<open>.xlsx\<close>, \<open>.xls\<close> or \<open>.csv\<close>, and whose directory creation and write do not
  fail, stores the received bytes at \<open>os.path.join("uploads", filename)\<close> and changes
  no other file; the path is the filename itself when that starts with \<open>/\<close> and
  \<open>uploads/\<close> followed by the unchanged filename otherwise, so an absolute filename and
  one with \<open>..\<close> components name a place outside \<open>uploads\<close>. Without a filename the
  upload is refused with 400 and the server is unchanged.
\<close>

theorem upload_write_location:
  "(f \<noteq> [] \<and> list_ex (\<lambda>ext. endswith (lower f) ext) [''.xlsx'', ''.xls'', ''.csv'']
      \<and> \<not> makedirs_fails env \<and> \<not> save_fails env \<longrightarrow>
      files (snd (upload_excel pd env \<lparr>filename = Some f, content = b\<rparr> srv))
        = (files srv)(path_join ''uploads'' f \<mapsto> b))
   \<and> path_join ''uploads'' f = (if startswith f ''/'' then f else ''uploads/'' @ f)
   \<and> (startswith f ''/'' \<longrightarrow> outside_uploads (path_join ''uploads'' f))
   \<and> outside_uploads (path_join ''uploads'' ''../evil.csv'')
   \<and> upload_excel pd env \<lparr>filename = None, content = b\<rparr> srv
       = (Inl (HTTPException 400 UnsupportedFileType), srv)"
proof (intro conjI impI)
  assume a: "f \<noteq> [] \<and> list_ex (\<lambda>ext. endswith (lower f) ext) [''.xlsx'', ''.xls'', ''.csv'']
      \<and> \<not> makedirs_fails env \<and> \<not> save_fails env"
  then show "files (snd (upload_excel pd env \<lparr>filename = Some f, content = b\<rparr> srv))
        = (files srv)(path_join ''uploads'' f \<mapsto> b)"
    by (auto simp: upload_excel_def Let_def split: sum.splits prod.splits)
next
  show "path_join ''uploads'' f = (if startswith f ''/'' then f else ''uploads/'' @ f)"
    by (rule path_join_uploads)
next
  assume "startswith f ''/''"
  then show "outside_uploads (path_join ''uploads'' f)"
    by (simp add: path_join_uploads outside_uploads_def)
next
  show "outside_uploads (path_join ''uploads'' ''../evil.csv'')"
    by code_simp
next
  show "upload_excel pd env \<lparr>filename = None, content = b\<rparr> srv
       = (Inl (HTTPException 400 UnsupportedFileType), srv)"
    using ext_uploaded_file by (simp add: upload_excel_def)
qed

theorem upload_write_location_witness:
  "files (snd (upload_excel scenario_A_reader ok_io
       \<lparr>filename = Some ''../evil.csv'', content = ''x''\<rparr> empty_server)) ''uploads/../evil.csv''
     = Some ''x''
   \<and> outside_uploads ''uploads/../evil.csv''
   \<and> files (snd (upload_excel scenario_A_reader ok_io
       \<lparr>filename = Some ''/tmp/evil.csv'', content = ''x''\<rparr> empty_server)) ''/tmp/evil.csv''
     = Some ''x''
   \<and> outside_uploads ''/tmp/evil.csv''"
proof -
  have e: "list_ex (\<lambda>ext. endswith (lower ''../evil.csv'') ext) [''.xlsx'', ''.xls'', ''.csv'']"
    "list_ex (\<lambda>ext. endswith (lower ''/tmp/evil.csv'') ext) [''.xlsx'', ''.xls'', ''.csv'']"
    by code_simp+
  have i: "\<not> makedirs_fails ok_io" "\<not> save_fails ok_io"
    by (simp_all add: ok_io_def)
  have s: "startswith ''/tmp/evil.csv'' ''/''" "\<not> startswith ''../evil.csv'' ''/''"
    by simp_all
  note w1 = upload_write_location [of "''../evil.csv''" ok_io scenario_A_reader "''x''" empty_server]
  from w1 e i have f1: "files (snd (upload_excel scenario_A_reader ok_io
       \<lparr>filename = Some ''../evil.csv'', content = ''x''\<rparr> empty_server))
     = (files empty_server)(path_join ''uploads'' ''../evil.csv'' \<mapsto> ''x'')"
    by blast
  from w1 s have p1: "path_join ''uploads'' ''../evil.csv'' = ''uploads/../evil.csv''"
    by simp
  from w1 have o1: "outside_uploads (path_join ''uploads'' ''../evil.csv'')"
    by blast
  from f1 p1 o1 have 1: "files (snd (upload_excel scenario_A_reader ok_io
       \<lparr>filename = Some ''../evil.csv'', content = ''x''\<rparr> empty_server)) ''uploads/../evil.csv''
     = Some ''x'' \<and> outside_uploads ''uploads/../evil.csv''"
    by simp
  note w2 = upload_write_location [of "''/tmp/evil.csv''" ok_io scenario_A_reader "''x''" empty_server]
  from w2 e i have f2: "files (snd (upload_excel scenario_A_reader ok_io
       \<lparr>filename = Some ''/tmp/evil.csv'', content = ''x''\<rparr> empty_server))
     = (files empty_server)(path_join ''uploads'' ''/tmp/evil.csv'' \<mapsto> ''x'')"
    by blast
  from w2 s have p2: "path_join ''uploads'' ''/tmp/evil.csv'' = ''/tmp/evil.csv''"
    by simp
  from w2 s have o2: "outside_uploads (path_join ''uploads'' ''/tmp/evil.csv'')"
    by blast
  from f2 p2 o2 have 2: "files (snd (upload_excel scenario_A_reader ok_io
       \<lparr>filename = Some ''/tmp/evil.csv'', content = ''x''\<rparr> empty_server)) ''/tmp/evil.csv''
     = Some ''x'' \<and> outside_uploads ''/tmp/evil.csv''"
    by simp
  from 1 2 show ?thesis by blast
qed

section \<open>Frames and their columns\<close>


lemma bind_err_simps [simp]: "bind_err (Inr x) f = f x" "bind_err (Inl e) f = Inl e"
  by (simp_all add: bind_err_def)

lemma map_of_replace:
  "map_of (map (\<lambda>(n, ys). if n = name then (n, xs) else (n, ys)) df) m
     = (if m = name \<and> name \<in> fst ` set df then Some xs else map_of df m)"
proof (induction df)
  case Nil
  show ?case by simp
next
  case (Cons p df)
  obtain a b where p: "p = (a, b)" by (cases p)
  show ?case
  proof (cases "a = name")
    case True
    with Cons p show ?thesis by simp
  next
    case False
    with Cons p show ?thesis by (auto split: if_splits)
  qed
qed

lemma getcol_setcol:
  "getcol (setcol df n xs) m = (if m = n then Some xs else getcol df m)"
proof (cases "n \<in> set (df_columns df)")
  case True
  then show ?thesis
    by (simp add: getcol_def setcol_def df_columns_def map_of_replace)
next
  case False
  then have "map_of df n = None"
    by (simp add: df_columns_def map_of_eq_None_iff)
  with False show ?thesis
    by (auto simp: getcol_def setcol_def map_add_def split: option.splits)
qed

lemma getcol_Some_iff: "(\<exists>xs. getcol df n = Some xs) \<longleftrightarrow> n \<in> set (df_columns df)"
  by (metis df_columns_def getcol_def map_of_eq_None_iff not_Some_eq set_map)

lemma lookup_col_setcol:
  "lookup_col (setcol df n xs) m = (if m = n then Inr xs else lookup_col df m)"
  by (simp add: lookup_col_def getcol_setcol)

lemma df_columns_setcol:
  "df_columns (setcol df n xs)
     = (if n \<in> set (df_columns df) then df_columns df else df_columns df @ [n])"
  by (auto simp: setcol_def df_columns_def intro!: map_idI split: prod.splits)


lemma uniform_getcol: "uniform k df \<Longrightarrow> getcol df n = Some xs \<Longrightarrow> length xs = k"
  by (auto simp: uniform_def getcol_def list_all_iff dest!: map_of_SomeD)



lemma wf_table_uniform: "wf_table df \<Longrightarrow> uniform (nrows df) df"
  by (simp add: wf_table_def uniform_def)

lemma uniform_strip_columns: "uniform k (strip_columns df) = uniform k df"
  by (auto simp: uniform_def strip_columns_def list_all_iff)

lemma nrows_strip_columns: "nrows (strip_columns df) = nrows df"
  by (cases df) (auto simp: nrows_def strip_columns_def)

lemma df_columns_strip_columns: "df_columns (strip_columns df) = map strip (df_columns df)"
  by (auto simp: df_columns_def strip_columns_def)

lemma setcol_setcol: "setcol (setcol df n xs) n ys = setcol df n ys"
proof (cases "n \<in> set (df_columns df)")
  case True
  then have "n \<in> set (df_columns (setcol df n xs))"
    by (simp add: df_columns_setcol)
  with True show ?thesis
    by (auto simp: setcol_def split: prod.splits)
next
  case False
  then have "\<And>m zs. (m, zs) \<in> set df \<Longrightarrow> m \<noteq> n"
    by (force simp: df_columns_def)
  then have "map (\<lambda>(m, zs). if m = n then (m, ys) else (m, zs)) df = df"
    by (intro map_idI) auto
  moreover have "n \<in> set (df_columns (setcol df n xs))"
    by (simp add: df_columns_setcol)
  ultimately show ?thesis
    using False by (simp add: setcol_def df_columns_def)
qed

section \<open>Amount resolution\<close>

lemma find_debit_credit_eq:
  "find_debit_credit cs (d0, c0) =
     (if filter (\<lambda>c. lower c = ''debit'') cs = [] then d0
      else Some (last (filter (\<lambda>c. lower c = ''debit'') cs)),
      if filter (\<lambda>c. lower c = ''credit'') cs = [] then c0
      else Some (last (filter (\<lambda>c. lower c = ''credit'') cs)))"
proof (induction cs arbitrary: d0 c0)
  case Nil
  show ?case by simp
next
  case (Cons c cs)
  have ne: "''debit'' \<noteq> ''credit''" by simp
  show ?case
    by (simp add: Cons.IH Let_def eq_commute)
qed


lemma lower_Amount: "lower ''Amount'' = ''amount''"
  by code_simp

lemma lower_Nil [simp]: "lower [] = []"
  by (simp add: lower_def)

lemma named_exactly_setcol_Amount:
  "name = ''debit'' \<or> name = ''credit'' \<Longrightarrow>
     named_exactly name (setcol df ''Amount'' xs) = named_exactly name df"
  by (auto simp: named_exactly_def df_columns_setcol lower_Amount)

lemma named_exactly_last:
  assumes "named_exactly name df \<noteq> []"
  shows "last (named_exactly name df) \<in> set (df_columns df)"
    and "lower (last (named_exactly name df)) = name"
proof -
  from assms have "last (named_exactly name df) \<in> set (named_exactly name df)"
    by (rule last_in_set)
  then show "last (named_exactly name df) \<in> set (df_columns df)"
    and "lower (last (named_exactly name df)) = name"
    by (simp_all add: named_exactly_def)
qed

lemma to_numeric_num_cell [simp]: "to_numeric pd (num_cell x) = x"
  by (cases x) (simp_all add: num_cell_def)

lemma isna_num_cell [simp]: "isna (num_cell x) \<longleftrightarrow> x = None"
  by (cases x) (simp_all add: num_cell_def)

lemma coerce_credit_minus_debit:
  "map (\<lambda>c. Num (fillna_num 0 (to_numeric pd c))) (credit_minus_debit pd credit debit)
     = credit_minus_debit pd credit debit"
  by (auto simp: credit_minus_debit_def fillna_num_def intro!: map_idI)

lemma resolve_amount_no_fallback:
  assumes "getcol df amt_col = Some primary" and "\<not> fallback_gate pd df primary"
  shows "resolve_amount pd df amt_col
           = Inr (setcol df ''Amount'' (map (\<lambda>c. Num (fillna_num 0 (to_numeric pd c))) primary))"
proof -
  let ?df1 = "setcol df ''Amount'' (map (\<lambda>c. num_cell (to_numeric pd c)) primary)"
  have p: "primary_amount pd df amt_col = ?df1"
    using assms(1) by (simp add: primary_amount_def)
  have f: "debit_credit_fallback pd ?df1 = Inr ?df1"
  proof (cases "named_exactly ''debit'' df \<noteq> [] \<and> named_exactly ''credit'' df \<noteq> []")
    case True
    with assms(2) have "\<not> list_all (\<lambda>c. to_numeric pd c = None) primary"
      by (simp add: fallback_gate_def)
    then have "\<not> list_all isna (map (\<lambda>c. num_cell (to_numeric pd c)) primary)"
      by (simp add: list_all_iff)
    then show ?thesis
      by (simp add: debit_credit_fallback_def find_debit_credit_eq lookup_col_setcol)
  next
    case False
    then have "named_exactly ''debit'' ?df1 = [] \<or> named_exactly ''credit'' ?df1 = []"
      by (simp add: named_exactly_setcol_Amount)
    then show ?thesis
      by (auto simp: debit_credit_fallback_def find_debit_credit_eq named_exactly_def)
  qed
  show ?thesis
    by (simp add: resolve_amount_def p f final_coercion_def lookup_col_setcol setcol_setcol
        comp_def)
qed


lemma resolve_amount_fallback:
  assumes "getcol df amt_col = Some primary" and "fallback_gate pd df primary"
  shows "\<exists>debit credit.
           getcol df (last (named_exactly ''debit'' df)) = Some debit
         \<and> getcol df (last (named_exactly ''credit'' df)) = Some credit
         \<and> resolve_amount pd df amt_col
             = Inr (setcol df ''Amount'' (credit_minus_debit pd credit debit))"
proof -
  let ?df1 = "setcol df ''Amount'' (map (\<lambda>c. num_cell (to_numeric pd c)) primary)"
  let ?d = "last (named_exactly ''debit'' df)"
  let ?c = "last (named_exactly ''credit'' df)"
  from assms(2) have ne: "named_exactly ''debit'' df \<noteq> []" "named_exactly ''credit'' df \<noteq> []"
    and miss: "list_all (\<lambda>c. to_numeric pd c = None) primary"
    by (simp_all add: fallback_gate_def)
  have p: "primary_amount pd df amt_col = ?df1"
    using assms(1) by (simp add: primary_amount_def)
  from named_exactly_last [OF ne(1)] obtain debit where d: "getcol df ?d = Some debit"
    and dl: "lower ?d = ''debit''"
    using getcol_Some_iff by blast
  from named_exactly_last [OF ne(2)] obtain credit where c: "getcol df ?c = Some credit"
    and cl: "lower ?c = ''credit''"
    using getcol_Some_iff by blast
  from dl cl have na: "?d \<noteq> ''Amount''" "?c \<noteq> ''Amount''" "?d \<noteq> []" "?c \<noteq> []"
    using lower_Amount by auto
  have fd: "find_debit_credit (df_columns ?df1) (None, None) = (Some ?d, Some ?c)"
    using ne named_exactly_setcol_Amount [of "''debit''" df]
      named_exactly_setcol_Amount [of "''credit''" df]
    by (simp add: find_debit_credit_eq named_exactly_def)
  have all_na: "list_all isna (map (\<lambda>c. num_cell (to_numeric pd c)) primary)"
    using miss by (simp add: list_all_iff)
  have f: "debit_credit_fallback pd ?df1
             = Inr (setcol ?df1 ''Amount'' (credit_minus_debit pd credit debit))"
    using na d c all_na
    by (simp add: debit_credit_fallback_def fd lookup_col_setcol lookup_col_def getcol_setcol)
  have "resolve_amount pd df amt_col
          = Inr (setcol df ''Amount'' (credit_minus_debit pd credit debit))"
    by (simp add: resolve_amount_def p f final_coercion_def lookup_col_setcol setcol_setcol
        coerce_credit_minus_debit)
  with d c show ?thesis by blast
qed

text \<open>
  C1: on a frame whose detected amount column is \<open>primary\<close>, the amount resolution
  replaces the amounts by credit minus debit, each side coerced and its missing cells
  taken as 0, exactly when a column named \<open>debit\<close> and a column named \<open>credit\<close>
  (case-insensitively, the last of each name) exist and every coerced primary value is
  missing; in every other case, in particular as soon as one primary value parses, the
  amounts are the coerced primary values with the missing ones set to 0.
\<close>

theorem fallback_only_when_primary_missing:
  assumes "getcol df amt_col = Some primary"
  shows "(\<not> fallback_gate pd df primary \<longrightarrow>
            resolve_amount pd df amt_col
              = Inr (setcol df ''Amount''
                       (map (\<lambda>c. Num (fillna_num 0 (to_numeric pd c))) primary)))
       \<and> (fallback_gate pd df primary \<longrightarrow>
            (\<exists>debit credit.
                getcol df (last (named_exactly ''debit'' df)) = Some debit
              \<and> getcol df (last (named_exactly ''credit'' df)) = Some credit
              \<and> resolve_amount pd df amt_col
                  = Inr (setcol df ''Amount''
                           (map2 (\<lambda>c d. Num (fillna_num 0 (to_numeric pd c)
                                              - fillna_num 0 (to_numeric pd d)))
                              credit debit))))
       \<and> ((\<exists>c \<in> set primary. to_numeric pd c \<noteq> None) \<longrightarrow> \<not> fallback_gate pd df primary)"
proof (intro conjI impI)
  assume "\<not> fallback_gate pd df primary"
  with assms show "resolve_amount pd df amt_col
              = Inr (setcol df ''Amount''
                       (map (\<lambda>c. Num (fillna_num 0 (to_numeric pd c))) primary))"
    by (rule resolve_amount_no_fallback)
next
  assume "fallback_gate pd df primary"
  with assms show "\<exists>debit credit.
                getcol df (last (named_exactly ''debit'' df)) = Some debit
              \<and> getcol df (last (named_exactly ''credit'' df)) = Some credit
              \<and> resolve_amount pd df amt_col
                  = Inr (setcol df ''Amount''
                           (map2 (\<lambda>c d. Num (fillna_num 0 (to_numeric pd c)
                                              - fillna_num 0 (to_numeric pd d)))
                              credit debit))"
    using resolve_amount_fallback [of df amt_col primary pd]
    by (simp add: credit_minus_debit_def)
next
  assume "\<exists>c \<in> set primary. to_numeric pd c \<noteq> None"
  then show "\<not> fallback_gate pd df primary"
    by (auto simp: fallback_gate_def list_all_iff)
qed


lemma notna_credit_minus_debit:
  "list_all (\<lambda>c. \<not> isna c) (credit_minus_debit pd credit debit)"
  by (auto simp: credit_minus_debit_def list_all_iff dest!: set_zip_leftD)


lemma scan_date_candidates_cases:
  "(scan_date_candidates pd df cands = df \<and> (\<forall>c \<in> set cands. getcol df c = None))
   \<or> (\<exists>col. scan_date_candidates pd df cands = setcol df ''Date'' (map (to_datetime pd) col)
         \<and> (\<exists>c. getcol df c = Some col))"
  by (induction cands) (auto split: option.splits)

lemma derive_date_cases:
  "(derive_date pd df dc = df \<and> getcol df ''Date'' = None)
   \<or> (\<exists>col. derive_date pd df dc = setcol df ''Date'' (map (to_datetime pd) col)
         \<and> (\<exists>c. getcol df c = Some col))"
  using scan_date_candidates_cases
    [of pd df "[''Date'', ''date'', ''Txn Date'', ''Transaction Date'']"]
  by (auto simp: derive_date_def split: option.splits if_splits)


lemma derive_date_getcol: "m \<noteq> ''Date'' \<Longrightarrow> getcol (derive_date pd df dc) m = getcol df m"
  using derive_date_cases [of pd df dc] by (auto simp: getcol_setcol)




theorem fallback_only_when_primary_missing_witness:
  "resolve_amount plain_pandas fallback_table ''Amount''
     = Inr (setcol fallback_table ''Amount'' [Num (- 100), Num 500])
   \<and> resolve_amount plain_pandas signed_table ''Amount''
     = Inr (setcol signed_table ''Amount'' [Num (- 100), Num 0])"
proof -
  have g1: "getcol fallback_table ''Amount'' = Some [NaN, Str ''n/a'']"
    by (simp add: getcol_def fallback_table_def)
  have gate1: "fallback_gate plain_pandas fallback_table [NaN, Str ''n/a'']"
    by code_simp
  have d1: "getcol fallback_table (last (named_exactly ''debit'' fallback_table))
              = Some [Num 100, Num 0]"
    and c1: "getcol fallback_table (last (named_exactly ''credit'' fallback_table))
              = Some [Num 0, Num 500]"
    by code_simp+
  from fallback_only_when_primary_missing [OF g1, of plain_pandas] gate1 d1 c1
  have 1: "resolve_amount plain_pandas fallback_table ''Amount''
     = Inr (setcol fallback_table ''Amount'' [Num (- 100), Num 500])"
    by (auto simp: fillna_num_def)
  have g2: "getcol signed_table ''Amount'' = Some [Num (- 100), NaN]"
    by (simp add: getcol_def signed_table_def)
  have gate2: "\<not> fallback_gate plain_pandas signed_table [Num (- 100), NaN]"
    by code_simp
  from fallback_only_when_primary_missing [OF g2, of plain_pandas] gate2
  have 2: "resolve_amount plain_pandas signed_table ''Amount''
     = Inr (setcol signed_table ''Amount'' [Num (- 100), Num 0])"
    by (auto simp: fillna_num_def)
  from 1 2 show ?thesis by blast
qed

section \<open>Grouping and the stages of the normalization\<close>










lemma category_exists_fails:
  assumes d: "getcol df ''Description'' = Some desc" and g: "getcol df ''Category'' = Some category"
    and n: "category \<noteq> []"
  shows "assign_category pd df = Inl ReplaceValueError"
  using assms by (simp add: assign_category_def lookup_col_def series_replace_def)



lemma first_where_cases:
  "first_where F (zip xs (map f xs)) = []
   \<or> (\<exists>c. first_where F (zip xs (map f xs)) = [c] \<and> c \<in> set xs \<and> F (f c))"
  by (induction xs) auto

lemma candidates_first:
  assumes "first_or_none (if filter E xs = [] then first_where F (zip xs (map f xs))
                          else filter E xs) = Some c"
  shows "c \<in> set xs \<and> (E c \<or> F (f c))"
proof (cases "filter E xs = []")
  case True
  with assms first_where_cases [of F xs f] show ?thesis
    by (auto simp: first_or_none_def)
next
  case False
  with assms obtain rest where "filter E xs = c # rest"
    by (auto simp: first_or_none_def split: list.splits)
  then have "c \<in> set (filter E xs)"
    by (metis list.set_intros(1))
  then show ?thesis by simp
qed

lemma detect_columns_desc:
  assumes "detect_columns cols = (Some d, a, dt)"
  shows "d \<in> set (map strip cols)" and "d \<noteq> []"
proof -
  from assms have "fst (detect_columns cols) = Some d" by simp
  then have "first_or_none
     (if filter (\<lambda>c. lower c \<in> set [''description'', ''narration'', ''details'',
                                      ''remarks'', ''particulars'']) (map strip cols) = []
      then first_where (\<lambda>c. isin ''desc'' c \<or> isin ''narr'' c \<or> isin ''particular'' c)
             (zip (map strip cols) (map lower (map strip cols)))
      else filter (\<lambda>c. lower c \<in> set [''description'', ''narration'', ''details'',
                                      ''remarks'', ''particulars'']) (map strip cols)) = Some d"
    unfolding detect_columns_def Let_def fst_conv snd_conv .
  from candidates_first [OF this]
  have m: "d \<in> set (map strip cols)"
    and c: "lower d \<in> set [''description'', ''narration'', ''details'', ''remarks'', ''particulars'']
          \<or> isin ''desc'' (lower d) \<or> isin ''narr'' (lower d) \<or> isin ''particular'' (lower d)"
    by blast+
  from m show "d \<in> set (map strip cols)" .
  from c show "d \<noteq> []" by auto
qed

lemma detect_columns_amt:
  assumes "detect_columns cols = (dsc, Some a, dt)"
  shows "a \<in> set (map strip cols)" and "a \<noteq> []"
proof -
  from assms have "fst (snd (detect_columns cols)) = Some a" by simp
  then have "first_or_none
     (if filter (\<lambda>c. isin ''amount'' (lower c)
                    \<or> lower c \<in> set [''amount'', ''amt'', ''value'', ''debit'', ''credit''])
           (map strip cols) = []
      then first_where (\<lambda>c. isin ''amt'' c \<or> isin ''debit'' c \<or> isin ''credit'' c
                              \<or> isin ''balance'' c)
             (zip (map strip cols) (map lower (map strip cols)))
      else filter (\<lambda>c. isin ''amount'' (lower c)
                    \<or> lower c \<in> set [''amount'', ''amt'', ''value'', ''debit'', ''credit''])
           (map strip cols)) = Some a"
    unfolding detect_columns_def Let_def fst_conv snd_conv .
  from candidates_first [OF this]
  have m: "a \<in> set (map strip cols)"
    and c: "(isin ''amount'' (lower a)
              \<or> lower a \<in> set [''amount'', ''amt'', ''value'', ''debit'', ''credit''])
          \<or> isin ''amt'' (lower a) \<or> isin ''debit'' (lower a) \<or> isin ''credit'' (lower a)
          \<or> isin ''balance'' (lower a)"
    by blast+
  from m show "a \<in> set (map strip cols)" .
  from c show "a \<noteq> []" by auto
qed





section \<open>The summary\<close>










section \<open>Outcomes of the normalization\<close>

lemma strip_idem: "strip (strip s) = strip s"
proof -
  define a where "a = dropWhile is_space s"
  define b where "b = dropWhile is_space (rev a)"
  have ha: "a = [] \<or> \<not> is_space (hd a)"
    unfolding a_def using hd_dropWhile by blast
  have 1: "dropWhile is_space (rev b) = rev b"
  proof (cases "b = []")
    case True
    then show ?thesis by simp
  next
    case False
    then have an: "a \<noteq> []" by (auto simp: b_def)
    have "rev a = takeWhile is_space (rev a) @ b" by (simp add: b_def)
    with False have "last b = last (rev a)" by (metis last_appendR)
    also have "\<dots> = hd a" using an by (simp add: last_rev)
    finally have "hd (rev b) = hd a" using False by (simp add: hd_rev)
    with ha an have "\<not> is_space (hd (rev b))" by simp
    then show ?thesis by (simp add: dropWhile_eq_self_iff)
  qed
  have 2: "dropWhile is_space b = b"
    by (simp add: b_def)
  have "strip s = rev b" by (simp add: strip_def a_def b_def)
  moreover have "strip (rev b) = rev b" by (simp add: strip_def 1 2)
  ultimately show ?thesis by simp
qed

lemma map_strip_strip: "map strip (map strip cols) = map strip cols"
  by (simp add: strip_idem)

lemma derive_month_succeeds:
  assumes "getcol df ''Amount'' = Some amount"
  shows "\<exists>month monthly. derive_month df = Inr (setcol df ''Month'' month, monthly)"
  using assms
  by (auto simp: derive_month_def Let_def lookup_col_def getcol_setcol split: option.splits)

lemma summarize_succeeds:
  assumes "getcol df ''Category'' = Some category" and "getcol df ''Amount'' = Some amount"
  shows "\<exists>s. summarize df monthly = Inr s"
  using assms by (simp add: summarize_def lookup_col_def Let_def)

lemma resolve_amount_succeeds:
  assumes "getcol df amt_col = Some primary"
  shows "\<exists>am. resolve_amount pd df amt_col = Inr (setcol df ''Amount'' am)"
proof (cases "fallback_gate pd df primary")
  case True
  with resolve_amount_fallback [OF assms] show ?thesis by blast
next
  case False
  with resolve_amount_no_fallback [OF assms] show ?thesis by blast
qed

lemma process_df_detected:
  assumes ne: "\<not> df_empty df0"
    and det: "detect_columns (map strip (df_columns df0)) = (Some dcol, Some acol, datecol)"
  shows "(''Category'' \<notin> set (map strip (df_columns df0)) \<longrightarrow>
            (\<exists>df' s. process_df pd df0 = Inr (df', s)))
       \<and> (''Category'' \<in> set (map strip (df_columns df0)) \<and> wf_table df0 \<longrightarrow>
            process_df pd df0 = Inl ReplaceValueError)"
proof -
  let ?df = "strip_columns df0"
  from detect_columns_desc [OF det] have dm: "dcol \<in> set (df_columns ?df)" and dn: "dcol \<noteq> []"
    by (simp_all add: df_columns_strip_columns strip_idem)
  from detect_columns_amt [OF det] have am: "acol \<in> set (df_columns ?df)" and an: "acol \<noteq> []"
    by (simp_all add: df_columns_strip_columns strip_idem)
  from dm obtain desc where d: "getcol ?df dcol = Some desc"
    using getcol_Some_iff by blast
  let ?df1 = "setcol ?df ''Description'' (map (description_of pd) desc)"
  from am have "acol \<in> set (df_columns ?df1)"
    by (simp add: df_columns_setcol)
  then obtain primary where "getcol ?df1 acol = Some primary"
    using getcol_Some_iff by blast
  from resolve_amount_succeeds [OF this] obtain amt where
    r: "resolve_amount pd ?df1 acol = Inr (setcol ?df1 ''Amount'' amt)"
    by blast
  let ?df2 = "setcol ?df1 ''Amount'' amt"
  let ?dd = "derive_date pd ?df2 datecol"
  have "getcol ?dd ''Amount'' = Some amt"
    by (simp add: derive_date_getcol getcol_setcol)
  from derive_month_succeeds [OF this] obtain month monthly where
    m: "derive_month ?dd = Inr (setcol ?dd ''Month'' month, monthly)"
    by blast
  let ?df3 = "setcol ?dd ''Month'' month"
  have g3: "getcol ?df3 ''Description'' = Some (map (description_of pd) desc)"
    "getcol ?df3 ''Amount'' = Some amt"
    "getcol ?df3 ''Category'' = getcol ?df ''Category''"
    by (simp_all add: derive_date_getcol getcol_setcol)
  have p: "process_df pd df0 =
             bind_err (assign_category pd ?df3)
               (\<lambda>df. bind_err (summarize df monthly) (\<lambda>summary. Inr (df, summary)))"
    using ne det dn an d r m
    by (simp add: process_df_def Let_def df_columns_strip_columns lookup_col_def)
  show ?thesis
  proof (intro conjI impI)
    assume "''Category'' \<notin> set (map strip (df_columns df0))"
    then have "getcol ?df ''Category'' = None"
      using getcol_Some_iff [of ?df "''Category''"]
      by (cases "getcol ?df ''Category''") (auto simp: df_columns_strip_columns)
    with g3 have c: "assign_category pd ?df3
        = Inr (setcol ?df3 ''Category''
                 (map (\<lambda>c. Str (categorize (Some (py_str pd c)))) (map (description_of pd) desc)))"
      by (simp add: assign_category_def lookup_col_def)
    let ?df4 = "setcol ?df3 ''Category''
                 (map (\<lambda>c. Str (categorize (Some (py_str pd c)))) (map (description_of pd) desc))"
    have "\<exists>s. summarize ?df4 monthly = Inr s"
      by (rule summarize_succeeds [where amount = amt]) (simp_all add: getcol_setcol derive_date_getcol)
    with p c show "\<exists>df' s. process_df pd df0 = Inr (df', s)"
      by auto
  next
    assume a: "''Category'' \<in> set (map strip (df_columns df0)) \<and> wf_table df0"
    then obtain category where cat: "getcol ?df ''Category'' = Some category"
      using getcol_Some_iff [of ?df "''Category''"] by (auto simp: df_columns_strip_columns)
    from a have "uniform (nrows df0) ?df"
      by (simp add: uniform_strip_columns wf_table_uniform)
    from this cat have "length category = nrows df0" by (rule uniform_getcol)
    with ne have "category \<noteq> []" by (auto simp: df_empty_def)
    with g3 cat have "assign_category pd ?df3 = Inl ReplaceValueError"
      by (intro category_exists_fails) simp_all
    with p show "process_df pd df0 = Inl ReplaceValueError" by simp
  qed
qed




text \<open>
  With a description column beside them, \<open>Debit\<close> is itself the detected amount
  column and parses, so the fallback stays closed and the amounts are the debits.
\<close>

lemma scenario_B_described_amounts:
  "column_of ''Amount'' (process_df pd scenario_B_described) = Some [Num 100, Num 0]"
  by code_simp

text \<open>
  C6: the claim is that a \<open>Category\<close> column keeps its non-empty values and gets the
  computed category where it is empty. On every well-formed, non-empty table with
  resolved description and amount columns and a \<open>Category\<close> column, line 144 calls
  \<open>Series.replace\<close> with a series as the value, which raises: the normalization fails
  and no category is kept or filled.
\<close>

theorem existing_category_column_fails:
  assumes "wf_table df" and "\<not> df_empty df"
    and "fst (detect_columns (df_columns (strip_columns df))) \<noteq> None"
    and "fst (snd (detect_columns (df_columns (strip_columns df)))) \<noteq> None"
    and "''Category'' \<in> set (df_columns (strip_columns df))"
  shows "process_df pd df = Inl ReplaceValueError"
proof -
  from assms(3,4) obtain dcol acol datecol where
    "detect_columns (map strip (df_columns df)) = (Some dcol, Some acol, datecol)"
    by (cases "detect_columns (map strip (df_columns df))")
       (auto simp: df_columns_strip_columns)
  from process_df_detected [OF assms(2) this, of pd] assms(1,5) show ?thesis
    by (simp add: df_columns_strip_columns)
qed

theorem existing_category_column_fails_witness:
  "process_df plain_pandas category_table = Inl ReplaceValueError"
proof -
  have "wf_table category_table" "\<not> df_empty category_table"
    "fst (detect_columns (df_columns (strip_columns category_table))) \<noteq> None"
    "fst (snd (detect_columns (df_columns (strip_columns category_table)))) \<noteq> None"
    "''Category'' \<in> set (df_columns (strip_columns category_table))"
    by code_simp+
  then show ?thesis by (rule existing_category_column_fails)
qed

text \<open>
  C7: an empty table fails with the no-data error; a table with rows in which no
  description-like or no amount-like column is resolved fails with the error that lists
  the (stripped) names of all its columns; both are \<open>ValueError\<close>s, the input-format
  errors. A table with rows, both columns resolved and no \<open>Category\<close> column normalizes
  successfully, whether or not a date column is found.
\<close>

theorem unresolved_columns_error:
  "(df_empty df \<longrightarrow> process_df pd df = Inl NoData)
   \<and> (\<not> df_empty df
        \<and> (fst (detect_columns (df_columns (strip_columns df))) = None
           \<or> fst (snd (detect_columns (df_columns (strip_columns df)))) = None) \<longrightarrow>
        process_df pd df = Inl (MissingColumns (map strip (df_columns df))))
   \<and> (\<not> df_empty df
        \<and> fst (detect_columns (df_columns (strip_columns df))) \<noteq> None
        \<and> fst (snd (detect_columns (df_columns (strip_columns df)))) \<noteq> None
        \<and> ''Category'' \<notin> set (df_columns (strip_columns df)) \<longrightarrow>
        (\<exists>df' s. process_df pd df = Inr (df', s)))
   \<and> is_value_error NoData \<and> is_value_error (MissingColumns cols)"
proof (intro conjI impI)
  assume "df_empty df"
  then show "process_df pd df = Inl NoData" by (simp add: process_df_def)
next
  assume a: "\<not> df_empty df
        \<and> (fst (detect_columns (df_columns (strip_columns df))) = None
           \<or> fst (snd (detect_columns (df_columns (strip_columns df)))) = None)"
  obtain dc ac dt where d: "detect_columns (df_columns (strip_columns df)) = (dc, ac, dt)"
    by (cases "detect_columns (df_columns (strip_columns df))") auto
  with a have "\<not> truthy dc \<or> \<not> truthy ac" by auto
  with a d show "process_df pd df = Inl (MissingColumns (map strip (df_columns df)))"
    by (auto simp: process_df_def Let_def df_columns_strip_columns)
next
  assume a: "\<not> df_empty df
        \<and> fst (detect_columns (df_columns (strip_columns df))) \<noteq> None
        \<and> fst (snd (detect_columns (df_columns (strip_columns df)))) \<noteq> None
        \<and> ''Category'' \<notin> set (df_columns (strip_columns df))"
  then obtain dcol acol datecol where
    "detect_columns (map strip (df_columns df)) = (Some dcol, Some acol, datecol)"
    by (cases "detect_columns (map strip (df_columns df))")
       (auto simp: df_columns_strip_columns)
  from process_df_detected [OF _ this, of pd] a
  show "\<exists>df' s. process_df pd df = Inr (df', s)"
    by (simp add: df_columns_strip_columns)
qed simp_all

theorem unresolved_columns_error_witness:
  "process_df plain_pandas header_only_table = Inl NoData
   \<and> process_df plain_pandas no_amount_table = Inl (MissingColumns [''Narration'', ''Paid''])
   \<and> (\<exists>df' s. process_df plain_pandas scenario_A = Inr (df', s))"
proof -
  have e: "df_empty header_only_table" by code_simp
  have n: "\<not> df_empty no_amount_table"
    "fst (snd (detect_columns (df_columns (strip_columns no_amount_table)))) = None"
    "map strip (df_columns no_amount_table) = [''Narration'', ''Paid'']"
    by code_simp+
  have a: "\<not> df_empty scenario_A"
    "fst (detect_columns (df_columns (strip_columns scenario_A))) \<noteq> None"
    "fst (snd (detect_columns (df_columns (strip_columns scenario_A)))) \<noteq> None"
    "''Category'' \<notin> set (df_columns (strip_columns scenario_A))"
    by code_simp+
  from e unresolved_columns_error [of header_only_table plain_pandas]
  have 1: "process_df plain_pandas header_only_table = Inl NoData" by blast
  from n unresolved_columns_error [of no_amount_table plain_pandas]
  have 2: "process_df plain_pandas no_amount_table = Inl (MissingColumns [''Narration'', ''Paid''])"
    by simp
  from a unresolved_columns_error [of scenario_A plain_pandas]
  have 3: "\<exists>df' s. process_df plain_pandas scenario_A = Inr (df', s)" by blast
  from 1 2 3 show ?thesis by blast
qed

end
